theory Spec2Isabelle
  imports Complex_Main
begin

section \<open>Data model of the character controller (CharacterAI.cpp)\<close>

text \<open>
  The C++ \<open>float\<close> values of the source are idealised as real numbers: the arithmetic of
  the model is exact, rounding is not represented. A \<open>bs::Vector3\<close> has three
  coordinates.
\<close>

datatype Vector3 = Vector3 (vx: real) (vy: real) (vz: real)

definition ZERO :: Vector3 where
  "ZERO = Vector3 0 0 0"

definition UNIT_Y :: Vector3 where
  "UNIT_Y = Vector3 0 1 0"

definition squaredLength :: "Vector3 \<Rightarrow> real" where
  "squaredLength v = vx v * vx v + vy v * vy v + vz v * vz v"

definition vsub :: "Vector3 \<Rightarrow> Vector3 \<Rightarrow> Vector3" where
  "vsub a b = Vector3 (vx a - vx b) (vy a - vy b) (vz a - vz b)"

definition squaredDistance :: "Vector3 \<Rightarrow> Vector3 \<Rightarrow> real" where
  "squaredDistance a b = squaredLength (vsub a b)"


definition scale :: "real \<Rightarrow> Vector3 \<Rightarrow> Vector3" where
  "scale k v = Vector3 (k * vx v) (k * vy v) (k * vz v)"

text \<open>The constants at the head of CharacterAI.cpp.\<close>

definition TURN_SPEED_NORMAL :: real where
  "TURN_SPEED_NORMAL = 5 / 100"

definition DEACTIVATE_PHYSICS_RANGE_METERS :: real where
  "DEACTIVATE_PHYSICS_RANGE_METERS = 45"

definition ACTIVATE_PHYSICS_RANGE_METERS :: real where
  "ACTIVATE_PHYSICS_RANGE_METERS = 40"

definition FALLING_ACCELERATION_Y :: real where
  "FALLING_ACCELERATION_Y = - (981 / 100)"

definition DOWNWARDS_VELOCITY_WHILE_WALKING :: real where
  "DOWNWARDS_VELOCITY_WHILE_WALKING = - 10"

text \<open>
  Modelled from the spec: the declarations of the enumerations \<open>AI::WalkMode\<close>,
  \<open>AI::WeaponMode\<close> and \<open>TurnDirection\<close>, which are in headers and not in
  CharacterAI.cpp. Section 3 of the spec gives the values (Run, Walk, Sneak; None, Fist;
  None, Left, Right), and CharacterAI.cpp names each of them. The two None values are
  \<open>WeaponNone\<close> and \<open>TurnNone\<close> here.
\<close>

datatype WalkMode = Run | Walk | Sneak

datatype WeaponMode = WeaponNone | Fist

datatype TurnDirection = TurnNone | TurnLeft | TurnRight

text \<open>The fields of the class that the member functions below read and write.\<close>

record CharacterAI =
  mWeaponMode :: WeaponMode
  mWalkMode :: WalkMode
  mTurnDirection :: TurnDirection
  mIsPhysicsActive :: bool
  mIsInAir :: bool
  mIsStandingOnSolidGround :: bool
  mFallingVelocity :: real

section \<open>Physics activation\<close>

definition deactivatePhysics :: "CharacterAI \<Rightarrow> CharacterAI" where
  "deactivatePhysics st = st\<lparr>mIsPhysicsActive := False\<rparr>"

definition activatePhysics :: "CharacterAI \<Rightarrow> CharacterAI" where
  "activatePhysics st = st\<lparr>mIsPhysicsActive := True\<rparr>"

text \<open>
  Both tests take the position of the main camera and the position of the character's
  scene object, which the source reads from the scene manager.
\<close>

definition shouldDisablePhysics :: "Vector3 \<Rightarrow> Vector3 \<Rightarrow> bool" where
  "shouldDisablePhysics cameraPosition soPosition =
     (let maxRangeSq = DEACTIVATE_PHYSICS_RANGE_METERS * DEACTIVATE_PHYSICS_RANGE_METERS
      in squaredDistance cameraPosition soPosition > maxRangeSq)"

definition shouldEnablePhysics :: "Vector3 \<Rightarrow> Vector3 \<Rightarrow> bool" where
  "shouldEnablePhysics cameraPosition soPosition =
     (let minRangeSq = ACTIVATE_PHYSICS_RANGE_METERS * ACTIVATE_PHYSICS_RANGE_METERS
      in squaredDistance cameraPosition soPosition < minRangeSq)"

definition isPhysicsActive :: "CharacterAI \<Rightarrow> bool" where
  "isPhysicsActive st = mIsPhysicsActive st"

definition handlePhysicsActivation :: "Vector3 \<Rightarrow> Vector3 \<Rightarrow> CharacterAI \<Rightarrow> CharacterAI" where
  "handlePhysicsActivation cameraPosition soPosition st =
     (if mIsPhysicsActive st
      then (if shouldDisablePhysics cameraPosition soPosition then deactivatePhysics st else st)
      else (if shouldEnablePhysics cameraPosition soPosition then activatePhysics st else st))"


section \<open>The collaborators the character controller calls\<close>

text \<open>
  The visual component (VisualCharacter), the animation naming (AnimationState) and the
  engine (scene objects, quaternions, the physics controller) are outside CharacterAI.cpp
  and GameWorld.cpp. Each is a record of the answers it gives: the functions of the
  controller take the records as parameters, and every theorem holds for all of them.
\<close>

type_synonym HAnimationClip = nat

text \<open>
  What the controller asks of \<open>mVisual\<close>. A null clip handle is \<open>None\<close>. Within every
  member function below all queries precede the one \<open>playAnimationClip\<close> call, so a
  snapshot of the answers is enough; the clips played are returned in order.
\<close>

record Visual =
  hasVisual :: bool
  getPlayingAnimationName :: string
  findAnimationClip :: "string \<Rightarrow> HAnimationClip option"
  findAnimationToTransitionTo :: "string \<Rightarrow> string"
  findAnimationToTransitionFromTo :: "string \<Rightarrow> string \<Rightarrow> string"
  isAnimationPlaying :: "HAnimationClip \<Rightarrow> bool"
  isPlayingAnimationInterruptable :: bool
  isPlayingIdleAnimation :: bool
  isPlayingFlyingAnimation :: bool
  resolveFrameRootMotion :: Vector3

record Naming =
  constructStateAnimationName :: "WeaponMode \<Rightarrow> WalkMode \<Rightarrow> string \<Rightarrow> string"
  getStateName :: "string \<Rightarrow> string"

datatype Quaternion = Quaternion (qx: real) (qy: real) (qz: real) (qw: real)

record Transform =
  pos :: Vector3
  rot :: Quaternion

datatype CharacterCollisionFlag = Sides | Up | Down

text \<open>
  The engine: \<open>rotateSO axis angle\<close> is \<open>SceneObject::rotate\<close>, \<open>setForwardSO\<close> is
  \<open>SceneObject::setForward\<close>, \<open>getForward\<close> is \<open>Transform::getForward\<close>,
  \<open>rotateVector\<close> is \<open>Quaternion::rotate\<close>, \<open>normalize\<close> is \<open>Vector3::normalize\<close>,
  and \<open>controllerMove\<close> is \<open>CCharacterController::move\<close>, which answers the collision
  flags and the position the character ends at.
\<close>

record Engine =
  rotateSO :: "Vector3 \<Rightarrow> real \<Rightarrow> Quaternion \<Rightarrow> Quaternion"
  setForwardSO :: "Vector3 \<Rightarrow> Quaternion \<Rightarrow> Quaternion"
  getForward :: "Quaternion \<Rightarrow> Vector3"
  rotateVector :: "Quaternion \<Rightarrow> Vector3 \<Rightarrow> Vector3"
  normalize :: "Vector3 \<Rightarrow> Vector3"
  controllerMove :: "Vector3 \<Rightarrow> Transform \<Rightarrow> CharacterCollisionFlag set \<times> Vector3"

section \<open>Locomotion state machine\<close>

text \<open>
  A request answers whether it was accepted, the fields of the controller after it, and
  the clips it told the visual to play.
\<close>

type_synonym Outcome = "bool \<times> CharacterAI \<times> HAnimationClip list"

definition isStanding :: "Naming \<Rightarrow> Visual \<Rightarrow> bool" where
  "isStanding nm v =
     (let currentAnimation = getPlayingAnimationName v;
          currentState = getStateName nm currentAnimation
      in if currentState = ''RUN'' then True
         else if currentState = ''WALK'' then True
         else False)"

text \<open>
  The source fetches the VisualCharacter component of the scene object again at the top
  of this function; the constructor has checked that the scene object has one, and the
  model has this one visual throughout.
\<close>

definition isStateSwitchAllowed :: "Naming \<Rightarrow> Visual \<Rightarrow> bool" where
  "isStateSwitchAllowed nm v =
     (let playingAnim = getPlayingAnimationName v
      in if playingAnim = [] then True
         else (let state = getStateName nm playingAnim
               in if state = [] then False
                  else if \<not> isPlayingAnimationInterruptable v then False
                  else True))"

definition isTurningAllowed :: bool where
  "isTurningAllowed = True"

definition tryPlayTransitionAnimationTo :: "Naming \<Rightarrow> Visual \<Rightarrow> string \<Rightarrow> CharacterAI \<Rightarrow> Outcome" where
  "tryPlayTransitionAnimationTo nm v anim st =
     (if \<not> hasVisual v then (False, st, [])
      else
        (let playingNow = getPlayingAnimationName v;
             clipPlayingNow = findAnimationClip v playingNow;
             animToPlay = findAnimationToTransitionTo v anim;
             clip = findAnimationClip v animToPlay
         in if clip = clipPlayingNow then (True, st, [])
            else
              (let clip' =
                     (if clip = None \<and> isStanding nm v
                      then findAnimationClip v (findAnimationToTransitionFromTo v ''S_STAND'' anim)
                      else clip)
               in case clip' of
                    None \<Rightarrow> (False, st, [])
                  | Some c \<Rightarrow> (True, st, if \<not> isAnimationPlaying v c then [c] else []))))"

definition tryTransitionToState :: "Naming \<Rightarrow> Visual \<Rightarrow> string \<Rightarrow> CharacterAI \<Rightarrow> Outcome" where
  "tryTransitionToState nm v state st =
     (if \<not> isStateSwitchAllowed nm v then (False, st, [])
      else
        (let anim = constructStateAnimationName nm (mWeaponMode st) (mWalkMode st) state
         in tryPlayTransitionAnimationTo nm v anim st))"


definition goForward :: "Naming \<Rightarrow> Visual \<Rightarrow> CharacterAI \<Rightarrow> Outcome" where
  "goForward nm v st = tryTransitionToState nm v ''L'' st"


definition strafeLeft :: "Naming \<Rightarrow> Visual \<Rightarrow> CharacterAI \<Rightarrow> Outcome" where
  "strafeLeft nm v st =
     (if \<not> isStateSwitchAllowed nm v then (False, st, [])
      else (case mWalkMode st of
              Run \<Rightarrow> tryPlayTransitionAnimationTo nm v ''T_RUNSTRAFEL'' st
            | Walk \<Rightarrow> tryPlayTransitionAnimationTo nm v ''T_WALKSTRAFEL'' st
            | Sneak \<Rightarrow> tryPlayTransitionAnimationTo nm v ''T_SNEAKSTRAFEL'' st))"

definition strafeRight :: "Naming \<Rightarrow> Visual \<Rightarrow> CharacterAI \<Rightarrow> Outcome" where
  "strafeRight nm v st =
     (if \<not> isStateSwitchAllowed nm v then (False, st, [])
      else (case mWalkMode st of
              Run \<Rightarrow> tryPlayTransitionAnimationTo nm v ''T_RUNSTRAFER'' st
            | Walk \<Rightarrow> tryPlayTransitionAnimationTo nm v ''T_WALKSTRAFER'' st
            | Sneak \<Rightarrow> tryPlayTransitionAnimationTo nm v ''T_SNEAKSTRAFER'' st))"

definition turnLeft :: "CharacterAI \<Rightarrow> Outcome" where
  "turnLeft st =
     (if \<not> isTurningAllowed then (False, st, [])
      else (True, st\<lparr>mTurnDirection := TurnLeft\<rparr>, []))"

definition turnRight :: "CharacterAI \<Rightarrow> Outcome" where
  "turnRight st =
     (if \<not> isTurningAllowed then (False, st, [])
      else (True, st\<lparr>mTurnDirection := TurnRight\<rparr>, []))"

definition stopTurning :: "CharacterAI \<Rightarrow> Outcome" where
  "stopTurning st = (True, st\<lparr>mTurnDirection := TurnNone\<rparr>, [])"

definition stopMoving :: "Naming \<Rightarrow> Visual \<Rightarrow> CharacterAI \<Rightarrow> Outcome" where
  "stopMoving nm v st =
     (case tryTransitionToState nm v [] st of
        (True, st', plays) \<Rightarrow> (True, st', plays)
      | (False, st', plays) \<Rightarrow>
          (case tryPlayTransitionAnimationTo nm v ''S_STAND'' st' of
             (True, st'', plays') \<Rightarrow> (True, st'', plays @ plays')
           | (False, st'', plays') \<Rightarrow> (False, st'', plays @ plays')))"


definition changeWalkMode :: "Naming \<Rightarrow> Visual \<Rightarrow> WalkMode \<Rightarrow> CharacterAI \<Rightarrow> Outcome" where
  "changeWalkMode nm v walkMode st =
     (let stateTarget = constructStateAnimationName nm (mWeaponMode st) walkMode []
      in case tryPlayTransitionAnimationTo nm v stateTarget st of
           (wasAllowed, st', plays) \<Rightarrow>
             (wasAllowed, (if wasAllowed then st'\<lparr>mWalkMode := walkMode\<rparr> else st'), plays))"

definition changeWeaponMode :: "Naming \<Rightarrow> Visual \<Rightarrow> WeaponMode \<Rightarrow> CharacterAI \<Rightarrow> Outcome" where
  "changeWeaponMode nm v mode st =
     (if \<not> hasVisual v then (True, st\<lparr>mWeaponMode := mode\<rparr>, [])
      else
        (let stateTarget = constructStateAnimationName nm mode (mWalkMode st) []
         in case tryPlayTransitionAnimationTo nm v stateTarget st of
              (wasAllowed, st', plays) \<Rightarrow>
                (let st1 = (if wasAllowed then st'\<lparr>mWeaponMode := mode\<rparr> else st')
                 in if \<not> wasAllowed
                    then (case findAnimationClip v stateTarget of
                            Some c \<Rightarrow> (wasAllowed, st1\<lparr>mWeaponMode := mode\<rparr>, plays @ [c])
                          | None \<Rightarrow> (wasAllowed, st1, plays))
                    else (wasAllowed, st1, plays))))"

section \<open>Motion integration, once per fixed tick\<close>

definition handleTurning :: "Engine \<Rightarrow> CharacterAI \<Rightarrow> Transform \<Rightarrow> Transform" where
  "handleTurning eng st so =
     (let frameTurn =
            (case mTurnDirection st of
               TurnNone \<Rightarrow> 0
             | TurnLeft \<Rightarrow> - TURN_SPEED_NORMAL
             | TurnRight \<Rightarrow> TURN_SPEED_NORMAL)
      in if \<bar>frameTurn\<bar> > 1 / 10000
         then so\<lparr>rot := rotateSO eng UNIT_Y frameTurn (rot so)\<rparr>
         else so)"

definition handleFallingAndFlying :: "Visual \<Rightarrow> real \<Rightarrow> CharacterAI \<Rightarrow> CharacterAI" where
  "handleFallingAndFlying v fixedFrameDelta st =
     (if isPlayingFlyingAnimation v
      then st\<lparr>mIsInAir := True, mFallingVelocity := 0\<rparr>
      else if \<not> mIsInAir st then st\<lparr>mFallingVelocity := 0\<rparr>
      else st\<lparr>mFallingVelocity := mFallingVelocity st + FALLING_ACCELERATION_Y * fixedFrameDelta\<rparr>)"

definition needsToUpdatePhysics :: "CharacterAI \<Rightarrow> Vector3 \<Rightarrow> bool" where
  "needsToUpdatePhysics st rootMotion =
     (if mIsInAir st then True
      else if \<not> mIsStandingOnSolidGround st then True
      else if squaredLength rootMotion > 0 then True
      else False)"

text \<open>
  The root motion of the tick, as \<open>fixedUpdate\<close> computes it in place: zero while an idle
  animation plays, else the displacement of the animation, rotated by the rotation of the
  scene object and negated.
\<close>

definition frameRootMotion :: "Engine \<Rightarrow> Visual \<Rightarrow> Transform \<Rightarrow> Vector3" where
  "frameRootMotion eng v so =
     (if \<not> isPlayingIdleAnimation v
      then scale (- 1) (rotateVector eng (rot so) (resolveFrameRootMotion v))
      else ZERO)"

text \<open>
  One tick. Its inputs are the position of the main camera and the fixed frame delta; it
  answers the fields of the controller, the transform of the scene object, and the
  velocities handed to the physics controller (none or one).
\<close>

definition fixedUpdate ::
  "Engine \<Rightarrow> Visual \<Rightarrow> Vector3 \<Rightarrow> real \<Rightarrow> CharacterAI \<Rightarrow> Transform \<Rightarrow>
   CharacterAI \<times> Transform \<times> Vector3 list" where
  "fixedUpdate eng v cameraPosition frameDelta st so =
     (let st1 = handlePhysicsActivation cameraPosition (pos so) st
      in if \<not> mIsPhysicsActive st1 then (st1, so, [])
         else
           (let so1 = (if isTurningAllowed then handleTurning eng st1 so else so);
                st2 = handleFallingAndFlying v frameDelta st1;
                rootMotion = frameRootMotion eng v so1
            in if needsToUpdatePhysics st2 rootMotion
               then
                 (let velocity =
                        (if mIsInAir st2
                         then Vector3 (vx rootMotion)
                                (vy rootMotion + mFallingVelocity st2 * frameDelta) (vz rootMotion)
                         else Vector3 (vx rootMotion)
                                (vy rootMotion + DOWNWARDS_VELOCITY_WHILE_WALKING * frameDelta)
                                (vz rootMotion))
                  in case controllerMove eng velocity so1 of
                       (flags, newPos) \<Rightarrow>
                         (st2\<lparr>mIsStandingOnSolidGround := (Down \<in> flags),
                              mIsInAir := (Down \<notin> flags)\<rparr>,
                          so1\<lparr>pos := newPos\<rparr>, [velocity]))
               else (st2, so1, [])))"

section \<open>Teleport and the name lookup of the world (GameWorld.cpp)\<close>

type_synonym HSceneObject = nat

text \<open>
  The world keeps the cache of scene objects by name. \<open>sceneObjects\<close> is the store of
  the live scene objects with their transforms: a destroyed object has no entry.
  \<open>findChild\<close> is the engine's search of the scene graph below the world's scene object;
  the null handle is \<open>None\<close>.
\<close>

record GameWorld =
  mSceneObjectsByNameCached :: "string \<rightharpoonup> HSceneObject"
  sceneObjects :: "HSceneObject \<rightharpoonup> Transform"
  findChild :: "string \<Rightarrow> HSceneObject option"

text \<open>
  A handle tests true when it is not null and its object is not destroyed.
  \<open>searchAndCache\<close> is the second half of \<open>findObjectByName\<close>, reached when the cache
  has no live object under the name: the search of the scene graph, and the entry in the
  cache when the search finds an object.
\<close>

definition isDestroyed :: "GameWorld \<Rightarrow> HSceneObject \<Rightarrow> bool" where
  "isDestroyed w h = (sceneObjects w h = None)"

definition handleValid :: "GameWorld \<Rightarrow> HSceneObject option \<Rightarrow> bool" where
  "handleValid w so = (case so of None \<Rightarrow> False | Some h \<Rightarrow> \<not> isDestroyed w h)"

definition searchAndCache :: "string \<Rightarrow> GameWorld \<Rightarrow> HSceneObject option \<times> GameWorld" where
  "searchAndCache name w =
     (let so = findChild w name
      in case so of
           None \<Rightarrow> (so, w)
         | Some h \<Rightarrow>
             (if \<not> isDestroyed w h
              then (so, w\<lparr>mSceneObjectsByNameCached := (mSceneObjectsByNameCached w)(name \<mapsto> h)\<rparr>)
              else (so, w)))"

definition findObjectByName :: "string \<Rightarrow> GameWorld \<Rightarrow> HSceneObject option \<times> GameWorld" where
  "findObjectByName name w =
     (case mSceneObjectsByNameCached w name of
        Some h \<Rightarrow> (if \<not> isDestroyed w h then (Some h, w) else searchAndCache name w)
      | None \<Rightarrow> searchAndCache name w)"

definition setPosition :: "HSceneObject \<Rightarrow> Vector3 \<Rightarrow> GameWorld \<Rightarrow> GameWorld" where
  "setPosition h p w =
     (case sceneObjects w h of
        None \<Rightarrow> w
      | Some t \<Rightarrow> w\<lparr>sceneObjects := (sceneObjects w)(h \<mapsto> t\<lparr>pos := p\<rparr>)\<rparr>)"

definition setForward :: "Engine \<Rightarrow> HSceneObject \<Rightarrow> Vector3 \<Rightarrow> GameWorld \<Rightarrow> GameWorld" where
  "setForward eng h f w =
     (case sceneObjects w h of
        None \<Rightarrow> w
      | Some t \<Rightarrow> w\<lparr>sceneObjects := (sceneObjects w)(h \<mapsto> t\<lparr>rot := setForwardSO eng f (rot t)\<rparr>)\<rparr>)"

text \<open>
  \<open>self\<close> is the handle of the character's own scene object. The source has no throw on
  any path of \<open>teleport\<close> or \<open>findObjectByName\<close>: the miss is logged and the function
  returns, so the model is a total function with no error result.
\<close>

definition teleport :: "Engine \<Rightarrow> HSceneObject \<Rightarrow> string \<Rightarrow> GameWorld \<Rightarrow> GameWorld" where
  "teleport eng self waypoint w =
     (case findObjectByName waypoint w of
        (so, w1) \<Rightarrow>
          (case so of
             None \<Rightarrow> w1
           | Some h \<Rightarrow>
               (case sceneObjects w1 h of
                  None \<Rightarrow> w1
                | Some target \<Rightarrow>
                    (let w2 = setPosition self (pos target) w1
                     in case sceneObjects w2 h of
                          None \<Rightarrow> w2
                        | Some target' \<Rightarrow>
                            (let forwardCenterd = getForward eng (rot target');
                                 flat = Vector3 (vx forwardCenterd) 0 (vz forwardCenterd)
                             in setForward eng self (normalize eng flat) w2)))))"

section \<open>Concrete inputs\<close>

text \<open>
  The inputs at which the theorems below are instantiated.

  Modelled from the spec: the naming of \<open>AnimationState\<close> (StateNaming.hpp), of which
  section 3 says that a clip name composes weapon mode, locomotion mode and substate.
  This one composes \<open>S_\<close>, the weapon tag, the gait tag and the state, and reads the state
  of a clip name back by dropping the \<open>S_\<close>; a name of another shape has no state. It is
  an input only: the functions of the controller take the naming as a parameter.
\<close>

definition sampleNaming :: Naming where
  "sampleNaming =
     \<lparr>constructStateAnimationName =
        (\<lambda>weapon walk state.
           ''S_'' @ (case weapon of WeaponNone \<Rightarrow> [] | Fist \<Rightarrow> ''FIST'')
                  @ (case walk of Run \<Rightarrow> ''RUN'' | Walk \<Rightarrow> ''WALK'' | Sneak \<Rightarrow> ''SNEAK'')
                  @ state),
      getStateName =
        (\<lambda>anim. case anim of
                   c1 # c2 # rest \<Rightarrow> (if c1 = CHR ''S'' \<and> c2 = CHR ''_'' then rest else [])
                 | _ \<Rightarrow> [])\<rparr>"

text \<open>A character standing on the ground in run mode, unarmed, physics active.\<close>

definition standingCharacter :: CharacterAI where
  "standingCharacter =
     \<lparr>mWeaponMode = WeaponNone, mWalkMode = Run, mTurnDirection = TurnNone,
      mIsPhysicsActive = True, mIsInAir = False, mIsStandingOnSolidGround = True,
      mFallingVelocity = 0\<rparr>"

text \<open>
  A visual whose idle clip \<open>S_RUN\<close> plays. It has the clips for running forward, for the
  jump and for the jump back, and the idle clip of the fist mode, to which it knows no
  transition.
\<close>

definition sampleVisual :: Visual where
  "sampleVisual =
     \<lparr>hasVisual = True,
      getPlayingAnimationName = ''S_RUN'',
      findAnimationClip =
        map_of [(''S_RUN'', 1), (''S_RUNL'', 2), (''S_FISTRUN'', 3), (''T_RUN_2_RUNL'', 4),
                (''T_STAND_2_JUMP'', 5), (''T_JUMPB'', 6)],
      findAnimationToTransitionTo =
        (\<lambda>to. case map_of [(''S_RUN'', ''S_RUN''), (''S_RUNL'', ''T_RUN_2_RUNL''),
                            (''S_JUMP'', ''T_STAND_2_JUMP''), (''T_JUMPB'', ''T_JUMPB'')] to of
                 Some a \<Rightarrow> a
               | None \<Rightarrow> []),
      findAnimationToTransitionFromTo = (\<lambda>from to. []),
      isAnimationPlaying = (\<lambda>c. c = 1),
      isPlayingAnimationInterruptable = True,
      isPlayingIdleAnimation = True,
      isPlayingFlyingAnimation = False,
      resolveFrameRootMotion = Vector3 0 0 0\<rparr>"


text \<open>
  The sample visual on which every transition to the pseudo state \<open>S_STAND\<close> resolves
  to the idle clip that plays.
\<close>

definition standAliasVisual :: Visual where
  "standAliasVisual =
     sampleVisual\<lparr>findAnimationToTransitionFromTo := (\<lambda>from to. ''S_RUN'')\<rparr>"

text \<open>A character whose model has not been set: nothing plays, no clip is found.\<close>

definition noVisual :: Visual where
  "noVisual =
     \<lparr>hasVisual = False,
      getPlayingAnimationName = [],
      findAnimationClip = (\<lambda>name. None),
      findAnimationToTransitionTo = (\<lambda>to. []),
      findAnimationToTransitionFromTo = (\<lambda>from to. []),
      isAnimationPlaying = (\<lambda>c. False),
      isPlayingAnimationInterruptable = True,
      isPlayingIdleAnimation = False,
      isPlayingFlyingAnimation = False,
      resolveFrameRootMotion = Vector3 0 0 0\<rparr>"

definition origin :: Transform where
  "origin = \<lparr>pos = Vector3 0 0 0, rot = Quaternion 0 0 0 1\<rparr>"

text \<open>
  A world with the character (handle 0) at the origin and one waypoint (handle 1), found
  by the search of the scene graph and not cached yet.
\<close>

definition sampleWorld :: GameWorld where
  "sampleWorld =
     \<lparr>mSceneObjectsByNameCached = Map.empty,
      sceneObjects =
        [0 \<mapsto> origin, 1 \<mapsto> \<lparr>pos = Vector3 10 2 (- 30), rot = Quaternion 0 1 0 0\<rparr>],
      findChild = (\<lambda>name. if name = ''WP_START'' then Some 1 else None)\<rparr>"

section \<open>Properties of the physics activation\<close>

lemma squaredDistance_nonneg: "0 \<le> squaredDistance a b"
  by (simp add: squaredDistance_def squaredLength_def)









section \<open>Properties of the locomotion state machine\<close>

lemma isStanding_sampleVisual: "isStanding sampleNaming sampleVisual"
  by (simp add: isStanding_def sampleNaming_def sampleVisual_def)

lemma isStateSwitchAllowed_sampleVisual: "isStateSwitchAllowed sampleNaming sampleVisual"
  by (simp add: isStateSwitchAllowed_def sampleNaming_def sampleVisual_def)



text \<open>
  A transition that resolves at the first lookup succeeds, and plays the clip unless it
  is the clip found under the playing name or the visual reports it as playing.
\<close>

lemma tryPlay_resolved:
  "hasVisual v \<Longrightarrow> findAnimationClip v (findAnimationToTransitionTo v anim) = Some c \<Longrightarrow>
   tryPlayTransitionAnimationTo nm v anim st =
     (True, st,
      if findAnimationClip v (getPlayingAnimationName v) = Some c \<or> isAnimationPlaying v c
      then [] else [c])"
  by (auto simp: tryPlayTransitionAnimationTo_def Let_def)


text \<open>A transition attempt never writes a field of the controller, and a failed one plays nothing.\<close>

lemma tryPlay_state:
  "tryPlayTransitionAnimationTo nm v anim st = (ok, st', plays) \<Longrightarrow>
   st' = st \<and> (\<not> ok \<longrightarrow> plays = [])"
  by (auto simp: tryPlayTransitionAnimationTo_def Let_def split: if_splits option.splits)

text \<open>
  A failed \<open>changeWalkMode\<close> changes nothing and plays nothing. A failed
  \<open>changeWeaponMode\<close> leaves every field but the weapon mode as it was, and changes the
  weapon mode exactly when the direct lookup finds the clip of the target state.
\<close>

lemma changeWalkMode_failure:
  "changeWalkMode nm v walkMode st = (False, st', plays) \<Longrightarrow> st' = st \<and> plays = []"
  by (auto simp: changeWalkMode_def tryPlayTransitionAnimationTo_def Let_def
      split: if_splits option.splits prod.splits)

lemma changeWeaponMode_failure:
  "changeWeaponMode nm v mode st = (False, st', plays) \<Longrightarrow>
   (case findAnimationClip v (constructStateAnimationName nm mode (mWalkMode st) []) of
      None \<Rightarrow> st' = st \<and> plays = []
    | Some c \<Rightarrow> st' = st\<lparr>mWeaponMode := mode\<rparr> \<and> plays = [c])"
  by (auto simp: changeWeaponMode_def tryPlayTransitionAnimationTo_def Let_def
      split: if_splits option.splits prod.splits)

text \<open>
  Claim C1 (every failed \<open>changeWeaponMode\<close> or \<open>changeWalkMode\<close> leaves weapon mode and
  locomotion mode as they were) against the code. The character stands in run mode,
  unarmed; its visual has the idle clip of the fist mode and knows no transition to it.
  \<open>changeWeaponMode(Fist)\<close> fails at the transition, finds the clip of the target state
  by the direct lookup, plays it and commits the fist mode, and still returns the failure
  of the transition.
\<close>

theorem changeWeaponMode_fails_after_commit:
  "changeWeaponMode sampleNaming sampleVisual Fist standingCharacter =
     (False, standingCharacter\<lparr>mWeaponMode := Fist\<rparr>, [3])"
  by (simp add: changeWeaponMode_def tryPlayTransitionAnimationTo_def isStanding_def
      sampleNaming_def sampleVisual_def standingCharacter_def)

text \<open>
  Claim C7, as the code has it. With no visual assigned, \<open>changeWeaponMode\<close> returns
  success and adopts the requested weapon mode, playing nothing; \<open>changeWalkMode\<close>
  returns failure and leaves the controller as it was.
\<close>

theorem mode_change_without_visual:
  "\<not> hasVisual v \<Longrightarrow>
   changeWeaponMode nm v mode st = (True, st\<lparr>mWeaponMode := mode\<rparr>, []) \<and>
   changeWalkMode nm v walkMode st = (False, st, [])"
  by (simp add: changeWeaponMode_def changeWalkMode_def tryPlayTransitionAnimationTo_def)

theorem mode_change_without_visual_witness:
  "\<not> hasVisual noVisual \<and>
   changeWeaponMode sampleNaming noVisual Fist standingCharacter =
     (True, standingCharacter\<lparr>mWeaponMode := Fist\<rparr>, []) \<and>
   changeWalkMode sampleNaming noVisual Sneak standingCharacter = (False, standingCharacter, [])"
proof -
  have h: "\<not> hasVisual noVisual" by (simp add: noVisual_def)
  from mode_change_without_visual [OF h, of sampleNaming Fist standingCharacter Sneak] h
  show ?thesis by simp
qed

text \<open>
  Claim C7 as stated fails for the locomotion mode: with no visual assigned,
  \<open>changeWalkMode(Walk)\<close> returns failure and the character stays in run mode.
\<close>

theorem changeWalkMode_without_visual_rejected:
  "\<not> hasVisual noVisual \<and>
   changeWalkMode sampleNaming noVisual Walk standingCharacter = (False, standingCharacter, []) \<and>
   mWalkMode standingCharacter = Run"
  by (simp add: changeWalkMode_def tryPlayTransitionAnimationTo_def noVisual_def
      standingCharacter_def)







text \<open>
  Claim C10. On a character with a visual, a transition request whose resolved target
  clip is the clip already playing returns success and issues no play command: at the
  first lookup when the clip is the one found under the playing name or the one the
  visual reports as playing, at the \<open>S_STAND\<close> fallback when the visual reports it as
  playing. The same holds for a request of a state through \<open>tryTransitionToState\<close>.
\<close>

theorem transition_to_playing_clip_plays_nothing:
  "hasVisual v \<Longrightarrow>
   (findAnimationClip v (findAnimationToTransitionTo v anim) = Some c \<and>
      (findAnimationClip v (getPlayingAnimationName v) = Some c \<or> isAnimationPlaying v c) \<longrightarrow>
      tryPlayTransitionAnimationTo nm v anim st = (True, st, [])) \<and>
   (findAnimationClip v (findAnimationToTransitionTo v anim) = None \<and> isStanding nm v \<and>
      findAnimationClip v (findAnimationToTransitionFromTo v ''S_STAND'' anim) = Some c \<and>
      isAnimationPlaying v c \<longrightarrow>
      tryPlayTransitionAnimationTo nm v anim st = (True, st, [])) \<and>
   (isStateSwitchAllowed nm v \<and>
      findAnimationClip v (findAnimationToTransitionTo v
        (constructStateAnimationName nm (mWeaponMode st) (mWalkMode st) state)) = Some c \<and>
      (findAnimationClip v (getPlayingAnimationName v) = Some c \<or> isAnimationPlaying v c) \<longrightarrow>
      tryTransitionToState nm v state st = (True, st, []))"
proof -
  assume v: "hasVisual v"
  have first: "findAnimationClip v (findAnimationToTransitionTo v anim) = Some c \<and>
      (findAnimationClip v (getPlayingAnimationName v) = Some c \<or> isAnimationPlaying v c) \<longrightarrow>
      tryPlayTransitionAnimationTo nm v anim st = (True, st, [])"
    using v by (simp add: tryPlay_resolved)
  have fallback: "findAnimationClip v (findAnimationToTransitionTo v anim) = None \<and> isStanding nm v \<and>
      findAnimationClip v (findAnimationToTransitionFromTo v ''S_STAND'' anim) = Some c \<and>
      isAnimationPlaying v c \<longrightarrow>
      tryPlayTransitionAnimationTo nm v anim st = (True, st, [])"
    using v by (simp add: tryPlayTransitionAnimationTo_def Let_def)
  have state: "isStateSwitchAllowed nm v \<and>
      findAnimationClip v (findAnimationToTransitionTo v
        (constructStateAnimationName nm (mWeaponMode st) (mWalkMode st) state)) = Some c \<and>
      (findAnimationClip v (getPlayingAnimationName v) = Some c \<or> isAnimationPlaying v c) \<longrightarrow>
      tryTransitionToState nm v state st = (True, st, [])"
    using v by (simp add: tryTransitionToState_def tryPlay_resolved)
  from first fallback state show ?thesis by blast
qed

theorem transition_to_playing_clip_plays_nothing_witness:
  "tryPlayTransitionAnimationTo sampleNaming sampleVisual ''S_RUN'' standingCharacter =
     (True, standingCharacter, []) \<and>
   tryPlayTransitionAnimationTo sampleNaming standAliasVisual ''S_STAND'' standingCharacter =
     (True, standingCharacter, []) \<and>
   tryTransitionToState sampleNaming sampleVisual [] standingCharacter =
     (True, standingCharacter, [])"
proof -
  have v: "hasVisual sampleVisual" by (simp add: sampleVisual_def)
  have v': "hasVisual standAliasVisual" by (simp add: standAliasVisual_def sampleVisual_def)
  have a: "findAnimationClip sampleVisual (findAnimationToTransitionTo sampleVisual ''S_RUN'') = Some 1 \<and>
           findAnimationClip sampleVisual (getPlayingAnimationName sampleVisual) = Some 1"
    by (simp add: sampleVisual_def)
  have b: "findAnimationClip standAliasVisual
             (findAnimationToTransitionTo standAliasVisual ''S_STAND'') = None \<and>
           isStanding sampleNaming standAliasVisual \<and>
           findAnimationClip standAliasVisual
             (findAnimationToTransitionFromTo standAliasVisual ''S_STAND'' ''S_STAND'') = Some 1 \<and>
           isAnimationPlaying standAliasVisual 1"
    by (simp add: standAliasVisual_def sampleVisual_def isStanding_def sampleNaming_def)
  have c: "findAnimationClip sampleVisual (findAnimationToTransitionTo sampleVisual
             (constructStateAnimationName sampleNaming (mWeaponMode standingCharacter)
                (mWalkMode standingCharacter) [])) = Some 1"
    by (simp add: sampleVisual_def sampleNaming_def standingCharacter_def)
  from transition_to_playing_clip_plays_nothing
         [OF v, of "''S_RUN''" 1 sampleNaming standingCharacter "[]"] a
  have 1: "tryPlayTransitionAnimationTo sampleNaming sampleVisual ''S_RUN'' standingCharacter =
             (True, standingCharacter, [])"
    by blast
  from transition_to_playing_clip_plays_nothing
         [OF v', of "''S_STAND''" 1 sampleNaming standingCharacter "[]"] b
  have 2: "tryPlayTransitionAnimationTo sampleNaming standAliasVisual ''S_STAND'' standingCharacter =
             (True, standingCharacter, [])"
    by blast
  from transition_to_playing_clip_plays_nothing
         [OF v, of "''S_RUN''" 1 sampleNaming standingCharacter "[]"] a c
       isStateSwitchAllowed_sampleVisual
  have 3: "tryTransitionToState sampleNaming sampleVisual [] standingCharacter =
             (True, standingCharacter, [])"
    by blast
  from 1 2 3 show ?thesis by simp
qed

section \<open>Properties of the motion integration\<close>




text \<open>The activation step writes the activation flag only.\<close>

lemma activation_fields:
  "mTurnDirection (handlePhysicsActivation c p st) = mTurnDirection st"
  "mIsInAir (handlePhysicsActivation c p st) = mIsInAir st"
  "mIsStandingOnSolidGround (handlePhysicsActivation c p st) = mIsStandingOnSolidGround st"
  "mFallingVelocity (handlePhysicsActivation c p st) = mFallingVelocity st"
  by (simp_all add: handlePhysicsActivation_def activatePhysics_def deactivatePhysics_def)


text \<open>A tick leaves the activation flag as the activation step set it.\<close>

lemma activation_of_a_tick:
  "mIsPhysicsActive (fst (fixedUpdate eng v cameraPosition frameDelta st so)) =
   mIsPhysicsActive (handlePhysicsActivation cameraPosition (pos so) st)"
  by (simp add: fixedUpdate_def Let_def handleFallingAndFlying_def split: prod.splits)

text \<open>
  The move that may follow the update of the vertical dynamics does not write the fall
  velocity, whatever it collides with.
\<close>

lemma fall_velocity_of_a_tick:
  "mIsPhysicsActive (handlePhysicsActivation cameraPosition (pos so) st) \<Longrightarrow>
   mFallingVelocity (fst (fixedUpdate eng v cameraPosition frameDelta st so)) =
   mFallingVelocity (handleFallingAndFlying v frameDelta st)"
  by (simp add: fixedUpdate_def Let_def handleFallingAndFlying_def activation_fields
      split: prod.splits)

text \<open>
  The turn of a tick, for every frame delta: with physics active after the activation
  step the scene object keeps its rotation when the turn direction is None, and is
  rotated about the Y axis by the constant \<open>TURN_SPEED_NORMAL\<close>, negated for Left.
\<close>

lemma turn_of_a_tick:
  "mIsPhysicsActive (handlePhysicsActivation cameraPosition (pos so) st) \<Longrightarrow>
   rot (fst (snd (fixedUpdate eng v cameraPosition frameDelta st so))) =
     (case mTurnDirection st of
        TurnNone \<Rightarrow> rot so
      | TurnLeft \<Rightarrow> rotateSO eng UNIT_Y (- TURN_SPEED_NORMAL) (rot so)
      | TurnRight \<Rightarrow> rotateSO eng UNIT_Y TURN_SPEED_NORMAL (rot so))"
  by (simp add: fixedUpdate_def Let_def isTurningAllowed_def handleTurning_def activation_fields
      TURN_SPEED_NORMAL_def split: prod.splits TurnDirection.splits)

text \<open>
  Claim C2 (on a tick with physics active and a turn direction other than None the
  character is rotated about the Y axis by \<open>turnSpeed * tickDelta\<close>, negative for Left)
  against the code. The tick has a fixed frame delta of one half and the turn direction
  Left; physics is active and the camera is at the character. The claim gives the angle
  \<open>- (0.05 * 0.5) = - 0.025\<close>; the code hands the engine the angle \<open>- 0.05\<close>, the constant
  that its comment gives in radians per second, not multiplied by the frame delta.
\<close>

theorem turn_angle_ignores_frame_delta:
  "\<forall>eng. rot (fst (snd (fixedUpdate eng sampleVisual (Vector3 0 0 0) (1 / 2)
             (standingCharacter\<lparr>mTurnDirection := TurnLeft\<rparr>) origin)))
         = rotateSO eng UNIT_Y (- (1 / 20)) (rot origin)"
  by (simp add: fixedUpdate_def handlePhysicsActivation_def shouldDisablePhysics_def
      DEACTIVATE_PHYSICS_RANGE_METERS_def squaredDistance_def squaredLength_def vsub_def
      origin_def standingCharacter_def isTurningAllowed_def handleTurning_def
      TURN_SPEED_NORMAL_def handleFallingAndFlying_def sampleVisual_def frameRootMotion_def
      needsToUpdatePhysics_def ZERO_def Let_def)

text \<open>
  Claim C5, as the code has it. After the update of the vertical dynamics of a tick with
  frame delta \<open>dt\<close>: a character that was airborne with fall velocity \<open>v\<close> while no flight
  animation plays has the fall velocity \<open>v + FALLING_ACCELERATION_Y * dt\<close>; a character
  that was on the ground has the fall velocity 0; and while a flight animation plays the
  fall velocity is 0 and the character is airborne.
\<close>

theorem fall_velocity_update:
  "(mIsInAir st \<and> \<not> isPlayingFlyingAnimation v \<longrightarrow>
      mFallingVelocity (handleFallingAndFlying v dt st) =
        mFallingVelocity st + FALLING_ACCELERATION_Y * dt) \<and>
   (\<not> mIsInAir st \<longrightarrow> mFallingVelocity (handleFallingAndFlying v dt st) = 0) \<and>
   (isPlayingFlyingAnimation v \<longrightarrow>
      mFallingVelocity (handleFallingAndFlying v dt st) = 0 \<and>
      mIsInAir (handleFallingAndFlying v dt st))"
  by (simp add: handleFallingAndFlying_def)

theorem fall_velocity_update_witness:
  "mFallingVelocity (handleFallingAndFlying sampleVisual (1 / 2)
      (standingCharacter\<lparr>mIsInAir := True, mFallingVelocity := 1\<rparr>)) = - (781 / 200) \<and>
   mFallingVelocity (handleFallingAndFlying sampleVisual (1 / 2)
      (standingCharacter\<lparr>mFallingVelocity := 1\<rparr>)) = 0 \<and>
   mFallingVelocity (handleFallingAndFlying (sampleVisual\<lparr>isPlayingFlyingAnimation := True\<rparr>)
      (1 / 2) standingCharacter) = 0 \<and>
   mIsInAir (handleFallingAndFlying (sampleVisual\<lparr>isPlayingFlyingAnimation := True\<rparr>)
      (1 / 2) standingCharacter)"
proof -
  have a: "mIsInAir (standingCharacter\<lparr>mIsInAir := True, mFallingVelocity := 1\<rparr>) \<and>
           \<not> isPlayingFlyingAnimation sampleVisual"
    by (simp add: sampleVisual_def)
  have g: "\<not> mIsInAir (standingCharacter\<lparr>mFallingVelocity := 1\<rparr>)"
    by (simp add: standingCharacter_def)
  have f: "isPlayingFlyingAnimation (sampleVisual\<lparr>isPlayingFlyingAnimation := True\<rparr>)"
    by simp
  from fall_velocity_update
         [of "standingCharacter\<lparr>mIsInAir := True, mFallingVelocity := 1\<rparr>" sampleVisual "1 / 2"] a
  have 1: "mFallingVelocity (handleFallingAndFlying sampleVisual (1 / 2)
             (standingCharacter\<lparr>mIsInAir := True, mFallingVelocity := 1\<rparr>)) = - (781 / 200)"
    by (simp add: FALLING_ACCELERATION_Y_def)
  from fall_velocity_update [of "standingCharacter\<lparr>mFallingVelocity := 1\<rparr>" sampleVisual "1 / 2"] g
  have 2: "mFallingVelocity (handleFallingAndFlying sampleVisual (1 / 2)
             (standingCharacter\<lparr>mFallingVelocity := 1\<rparr>)) = 0"
    by blast
  from fall_velocity_update
         [of standingCharacter "sampleVisual\<lparr>isPlayingFlyingAnimation := True\<rparr>" "1 / 2"] f
  have 3: "mFallingVelocity (handleFallingAndFlying (sampleVisual\<lparr>isPlayingFlyingAnimation := True\<rparr>)
             (1 / 2) standingCharacter) = 0 \<and>
           mIsInAir (handleFallingAndFlying (sampleVisual\<lparr>isPlayingFlyingAnimation := True\<rparr>)
             (1 / 2) standingCharacter)"
    by blast
  from 1 2 3 show ?thesis by simp
qed

text \<open>
  Claim C5 as stated fails while a flight animation plays: the character is airborne with
  fall velocity 1 and the frame delta is one half, so the claim gives
  \<open>1 + (- 9.81) * 0.5 = - 3.905\<close>; the update sets the fall velocity to 0.
\<close>

theorem fall_velocity_under_flight_animation:
  "mIsInAir (standingCharacter\<lparr>mIsInAir := True, mFallingVelocity := 1\<rparr>) \<and>
   mFallingVelocity (standingCharacter\<lparr>mIsInAir := True, mFallingVelocity := 1\<rparr>)
     + FALLING_ACCELERATION_Y * (1 / 2) = - (781 / 200) \<and>
   mFallingVelocity (handleFallingAndFlying (sampleVisual\<lparr>isPlayingFlyingAnimation := True\<rparr>)
     (1 / 2) (standingCharacter\<lparr>mIsInAir := True, mFallingVelocity := 1\<rparr>)) = 0"
  by (simp add: handleFallingAndFlying_def FALLING_ACCELERATION_Y_def)




section \<open>Properties of teleport\<close>

lemma findObjectByName_miss:
  "\<not> handleValid w (fst (findObjectByName waypoint w)) \<Longrightarrow> snd (findObjectByName waypoint w) = w"
  by (auto simp: findObjectByName_def searchAndCache_def handleValid_def Let_def
      split: option.splits if_splits)

text \<open>The lookup may fill the cache; it never touches a scene object.\<close>

lemma findObjectByName_store:
  "sceneObjects (snd (findObjectByName waypoint w)) = sceneObjects w"
  by (auto simp: findObjectByName_def searchAndCache_def Let_def split: option.splits)

text \<open>
  Claim C4. When the lookup of the name finds no object (a null handle, or the handle of
  a destroyed object), \<open>teleport\<close> returns with the world, and in it the position and the
  rotation of the character, as they were; the function has no error result. When the
  lookup finds a live object, the character has the position of that object, and the
  engine's \<open>setForward\<close> is applied to the character's rotation with the forward vector of
  that object, its Y component set to 0, normalized.
\<close>

theorem teleport_miss_and_hit:
  "(\<not> handleValid w (fst (findObjectByName waypoint w)) \<longrightarrow> teleport eng self waypoint w = w) \<and>
   (fst (findObjectByName waypoint w) = Some h \<and> sceneObjects w h = Some target \<and>
    sceneObjects w self = Some me \<longrightarrow>
      sceneObjects (teleport eng self waypoint w) self =
        Some \<lparr>pos = pos target,
              rot = setForwardSO eng
                      (normalize eng (Vector3 (vx (getForward eng (rot target))) 0
                                              (vz (getForward eng (rot target)))))
                      (rot me)\<rparr>)"
proof (intro conjI impI)
  assume m: "\<not> handleValid w (fst (findObjectByName waypoint w))"
  obtain so w1 where f: "findObjectByName waypoint w = (so, w1)"
    by (cases "findObjectByName waypoint w")
  from findObjectByName_miss [OF m] f have w1: "w1 = w" by simp
  from m f w1 show "teleport eng self waypoint w = w"
    by (simp add: teleport_def handleValid_def isDestroyed_def split: option.splits)
next
  assume a: "fst (findObjectByName waypoint w) = Some h \<and> sceneObjects w h = Some target \<and>
    sceneObjects w self = Some me"
  obtain so w1 where f: "findObjectByName waypoint w = (so, w1)"
    by (cases "findObjectByName waypoint w")
  from findObjectByName_store [of waypoint w] f have s: "sceneObjects w1 = sceneObjects w"
    by simp
  from a f have so: "so = Some h" by simp
  show "sceneObjects (teleport eng self waypoint w) self =
        Some \<lparr>pos = pos target,
              rot = setForwardSO eng
                      (normalize eng (Vector3 (vx (getForward eng (rot target))) 0
                                              (vz (getForward eng (rot target)))))
                      (rot me)\<rparr>"
    using a
    by (cases "h = self") (auto simp: teleport_def f so s setPosition_def setForward_def Let_def)
qed

theorem teleport_miss_and_hit_witness:
  "\<forall>eng.
     teleport eng 0 ''WP_MISSING'' sampleWorld = sampleWorld \<and>
     sceneObjects (teleport eng 0 ''WP_START'' sampleWorld) 0 =
       Some \<lparr>pos = Vector3 10 2 (- 30),
             rot = setForwardSO eng
                     (normalize eng (Vector3 (vx (getForward eng (Quaternion 0 1 0 0))) 0
                                             (vz (getForward eng (Quaternion 0 1 0 0)))))
                     (Quaternion 0 0 0 1)\<rparr>"
proof
  fix eng
  have miss: "\<not> handleValid sampleWorld (fst (findObjectByName ''WP_MISSING'' sampleWorld))"
    by (simp add: findObjectByName_def searchAndCache_def handleValid_def sampleWorld_def Let_def)
  have hit: "fst (findObjectByName ''WP_START'' sampleWorld) = Some 1 \<and>
             sceneObjects sampleWorld 1 = Some \<lparr>pos = Vector3 10 2 (- 30), rot = Quaternion 0 1 0 0\<rparr> \<and>
             sceneObjects sampleWorld 0 = Some origin"
    by (simp add: findObjectByName_def searchAndCache_def isDestroyed_def sampleWorld_def Let_def)
  from teleport_miss_and_hit [of sampleWorld "''WP_MISSING''" eng 0] miss
  have 1: "teleport eng 0 ''WP_MISSING'' sampleWorld = sampleWorld"
    by blast
  from teleport_miss_and_hit
         [of sampleWorld "''WP_START''" eng 0 1
             "\<lparr>pos = Vector3 10 2 (- 30), rot = Quaternion 0 1 0 0\<rparr>" origin] hit
  have 2: "sceneObjects (teleport eng 0 ''WP_START'' sampleWorld) 0 =
       Some \<lparr>pos = Vector3 10 2 (- 30),
             rot = setForwardSO eng
                     (normalize eng (Vector3 (vx (getForward eng (Quaternion 0 1 0 0))) 0
                                             (vz (getForward eng (Quaternion 0 1 0 0)))))
                     (Quaternion 0 0 0 1)\<rparr>"
    by (simp add: origin_def)
  from 1 2 show
    "teleport eng 0 ''WP_MISSING'' sampleWorld = sampleWorld \<and>
     sceneObjects (teleport eng 0 ''WP_START'' sampleWorld) 0 =
       Some \<lparr>pos = Vector3 10 2 (- 30),
             rot = setForwardSO eng
                     (normalize eng (Vector3 (vx (getForward eng (Quaternion 0 1 0 0))) 0
                                             (vz (getForward eng (Quaternion 0 1 0 0)))))
                     (Quaternion 0 0 0 1)\<rparr>"
    by simp
qed

end
